theory Spec2Isabelle
  imports Main "HOL-Library.Word"
begin

section \<open>Android SafetyNet attestation verification (attestation/androidsafetynet)\<close>

text \<open>
  A shallow embedding of \<^verbatim>\<open>verifyAndroidSafetynet\<close> from
  \<^verbatim>\<open>attestation/androidsafetynet/androidsafetynet.go\<close>. The function is
  straight-line code around five calls into libraries that are not part of the package
  (go-jose, crypto/x509, encoding/json, crypto/sha256) and one read of the package's clock
  variable \<^verbatim>\<open>now\<close>. The library functions are parameters of the model (the record
  \<open>env\<close>); the clock is a state transformer on an ambient world; every external call is
  appended to a call log, so that what the function executed can be stated.
\<close>

subsection \<open>Go values\<close>

type_synonym byte = "8 word"

type_synonym bytes = "byte list"

text \<open>Unix time; only handed from the clock to the certificate check.\<close>
type_synonym Time = int

text \<open>A library error (Go's \<^verbatim>\<open>error\<close> interface): what \<^verbatim>\<open>%v\<close> prints of it.\<close>
datatype go_error = GoError string

fun Error_msg :: "go_error \<Rightarrow> string" where
  "Error_msg (GoError m) = m"

text \<open>
  The dynamic values an \<^verbatim>\<open>interface{}\<close> entry of the attestation statement can
  hold after decoding.
\<close>
datatype go_value =
    VNil
  | VBool bool
  | VInt64 "64 word"
  | VUint64 "64 word"
  | VString string
  | VBytes bytes
  | VArray "go_value list"
  | VMap "(go_value \<times> go_value) list"

text \<open>The type assertions \<^verbatim>\<open>v.(string)\<close> and \<^verbatim>\<open>v.([]byte)\<close> with their ok flag.\<close>
fun assert_string :: "go_value \<Rightarrow> string option" where
  "assert_string (VString s) = Some s"
| "assert_string _ = None"

fun assert_bytes :: "go_value \<Rightarrow> bytes option" where
  "assert_bytes (VBytes b) = Some b"
| "assert_bytes _ = None"

text \<open>What \<^verbatim>\<open>%T\<close> prints of a value.\<close>
fun type_name :: "go_value \<Rightarrow> string" where
  "type_name VNil = ''<nil>''"
| "type_name (VBool _) = ''bool''"
| "type_name (VInt64 _) = ''int64''"
| "type_name (VUint64 _) = ''uint64''"
| "type_name (VString _) = ''string''"
| "type_name (VBytes _) = ''[]uint8''"
| "type_name (VArray _) = ''[]interface {}''"
| "type_name (VMap _) = ''map[interface {}]interface {}''"

text \<open>The conversion \<^verbatim>\<open>string(b)\<close>: the same bytes, as a string.\<close>
definition string_of_bytes :: "bytes \<Rightarrow> string" where
  "string_of_bytes b = map (\<lambda>x. char_of (unat x)) b"

subsection \<open>The protocol package's types\<close>

text \<open>
  Modelled from the spec: \<^verbatim>\<open>protocol.Error\<close> and its builders, which are declared
  in the protocol package and not in this file. The spec's output contract: a typed
  failure carrying a stable error kind (\<open>err\<close>), free-form diagnostic detail (\<open>debug\<close>)
  and an optional wrapped underlying cause (\<open>cause\<close>). The base value
  \<^verbatim>\<open>protocol.ErrInvalidAttestation\<close> is a parameter (in \<open>env\<close> below).
\<close>
record Error =
  err :: string
  debug :: string
  cause :: "go_error option"

definition WithDebug :: "Error \<Rightarrow> string \<Rightarrow> Error" where
  "WithDebug e d = e\<lparr>debug := d\<rparr>"

definition WithCause :: "Error \<Rightarrow> go_error \<Rightarrow> Error" where
  "WithCause e c = e\<lparr>cause := Some c\<rparr>"

text \<open>
  Modelled from the spec: \<^verbatim>\<open>protocol.Attestation\<close>, of which the function reads the
  untyped statement map and the raw authenticator data.
\<close>
record AuthenticatorData =
  Raw :: bytes

record Attestation =
  AuthData :: AuthenticatorData
  AttStmt :: "string \<rightharpoonup> go_value"

subsection \<open>The library types the function handles\<close>

record Certificate =
  DNSNames :: "string list"
  NotBefore :: Time
  NotAfter :: Time
  PublicKey :: bytes

record Header =
  certificates :: "Certificate list"

record Signature =
  Protected :: Header

record JSONWebSignature =
  jws_payload :: bytes
  Signatures :: "Signature list"

record VerifyOptions =
  DNSName :: string
  CurrentTime :: Time

text \<open>Lines 23-31 of the source.\<close>
record AndroidSafetyNetAttestionResponse =
  Nonce :: bytes
  TimestampMs :: "64 word"
  ApkPackageName :: string
  ApkDigestSha256 :: bytes
  CtsProfileMatch :: bool
  ApkCertificateDigestSha256 :: "bytes list"
  BasicIntegrity :: bool

subsection \<open>The environment: libraries, the clock, the call log\<close>

text \<open>
  The functions of other packages that the source calls, each with the result type the
  source handles (\<open>Inl\<close> is the returned error).
\<close>
record env =
  ErrInvalidAttestation :: Error
  ParseSigned :: "string \<Rightarrow> go_error + JSONWebSignature"
  Certificates :: "Header \<Rightarrow> VerifyOptions \<Rightarrow> go_error + Certificate list list"
  Verify :: "JSONWebSignature \<Rightarrow> bytes \<Rightarrow> go_error + bytes"
  Unmarshal :: "bytes \<Rightarrow> go_error + AndroidSafetyNetAttestionResponse"
  Sum256 :: "bytes \<Rightarrow> bytes"

text \<open>
  The package variable of line 17, \<^verbatim>\<open>var now = time.Now\<close>: a function without
  arguments that reads the ambient world \<open>'w\<close> and may change it (a ticking clock).
\<close>
record 'w globals =
  now :: "'w \<Rightarrow> Time \<times> 'w"

definition package_init :: "('w \<Rightarrow> Time \<times> 'w) \<Rightarrow> 'w globals" where
  "package_init time_Now = \<lparr>now = time_Now\<rparr>"

text \<open>One entry per external call, in program order, with what it was called on.\<close>
datatype call =
    CallParseSigned string
  | CallNow Time
  | CallCertificates Header VerifyOptions
  | CallVerify JSONWebSignature bytes
  | CallUnmarshal bytes
  | CallSum256 bytes

record 'w world =
  ambient :: 'w
  calls :: "call list"

definition record_call :: "call \<Rightarrow> 'w world \<Rightarrow> 'w world" where
  "record_call c s = s\<lparr>calls := calls s @ [c]\<rparr>"

text \<open>
  What a call of the function does: it returns an \<^verbatim>\<open>error\<close> (\<open>None\<close> is
  \<^verbatim>\<open>nil\<close>), or it panics (\<^verbatim>\<open>cert[0][0]\<close> out of range).
\<close>
datatype outcome = Return "Error option" | Panic

subsection \<open>verifyAndroidSafetynet (lines 33-102)\<close>

definition verifyAndroidSafetynet ::
  "env \<Rightarrow> 'w globals \<Rightarrow> Attestation \<Rightarrow> bytes \<Rightarrow> 'w world \<Rightarrow> outcome \<times> 'w world" where
  "verifyAndroidSafetynet e g a clientDataHash s =
    (case AttStmt a ''ver'' of
      None \<Rightarrow>
        (Return (Some (WithDebug (ErrInvalidAttestation e)
           ''missing ver for android-safetynet'')), s)
    | Some rawVer \<Rightarrow>
    (case assert_string rawVer of
      None \<Rightarrow>
        (Return (Some (WithDebug (ErrInvalidAttestation e)
           (''invalid ver for android-safetynet, is of invalid type '' @ type_name rawVer))), s)
    | Some ver \<Rightarrow>
    if ver = [] then
        (Return (Some (WithDebug (ErrInvalidAttestation e)
           ''invalid ver for android-safetynet'')), s)
    else
    (case AttStmt a ''response'' of
      None \<Rightarrow>
        (Return (Some (WithDebug (ErrInvalidAttestation e)
           ''missing response for android-safetynet'')), s)
    | Some rawResponse \<Rightarrow>
    (case assert_bytes rawResponse of
      None \<Rightarrow>
        \<comment> \<open>line 54 formats \<^verbatim>\<open>responseBytes\<close>, the nil \<^verbatim>\<open>[]byte\<close>, not rawResponse\<close>
        (Return (Some (WithDebug (ErrInvalidAttestation e)
           (''invalid response for android-safetynet, is of invalid type '' @ ''[]uint8''))), s)
    | Some responseBytes \<Rightarrow>
    let s1 = record_call (CallParseSigned (string_of_bytes responseBytes)) s in
    (case ParseSigned e (string_of_bytes responseBytes) of
      Inl er \<Rightarrow>
        (Return (Some (WithDebug (ErrInvalidAttestation e)
           (''invalid response for android-safetynet: '' @ Error_msg er))), s1)
    | Inr response \<Rightarrow>
    if length (Signatures response) \<noteq> 1 then
        (Return (Some (WithDebug (ErrInvalidAttestation e)
           ''invalid response for android-safetynet: more or less than 1 signature'')), s1)
    else
    (case now g (ambient s1) of (t, w) \<Rightarrow>
    let s2 = record_call (CallNow t) (s1\<lparr>ambient := w\<rparr>);
        opts = \<lparr>DNSName = ''attest.android.com'', CurrentTime = t\<rparr>;
        hdr = Protected (Signatures response ! 0);
        s3 = record_call (CallCertificates hdr opts) s2 in
    (case Certificates e hdr opts of
      Inl er \<Rightarrow>
        (Return (Some (WithCause (WithDebug (ErrInvalidAttestation e)
           (''invalid response for android-safetynet: '' @ Error_msg er)) er)), s3)
    | Inr cert \<Rightarrow>
    (case cert of
      [] \<Rightarrow> (Panic, s3)
    | chain # _ \<Rightarrow>
    (case chain of
      [] \<Rightarrow> (Panic, s3)
    | leaf # _ \<Rightarrow>
    let s4 = record_call (CallVerify response (PublicKey leaf)) s3 in
    (case Verify e response (PublicKey leaf) of
      Inl er \<Rightarrow>
        (Return (Some (WithCause (WithDebug (ErrInvalidAttestation e)
           (''invalid response for android-safetynet: '' @ Error_msg er)) er)), s4)
    | Inr payload \<Rightarrow>
    let s5 = record_call (CallUnmarshal payload) s4 in
    (case Unmarshal e payload of
      Inl er \<Rightarrow>
        (Return (Some (WithDebug (ErrInvalidAttestation e)
           (''invalid response for android-safetynet: '' @ Error_msg er))), s5)
    | Inr attestationResponse \<Rightarrow>
    let nonceBytes = Raw (AuthData a) @ clientDataHash;
        expectedNonce = Sum256 e nonceBytes;
        s6 = record_call (CallSum256 nonceBytes) s5 in
    if expectedNonce \<noteq> Nonce attestationResponse then
        (Return (Some (WithDebug (ErrInvalidAttestation e)
           ''invalid response for android-safetynet: invalid nonce'')), s6)
    else if \<not> CtsProfileMatch attestationResponse then
        (Return (Some (WithDebug (ErrInvalidAttestation e)
           ''invalid response for android-safetynet: does not match CTS profile'')), s6)
    else (Return None, s6))))))))))))"

section \<open>Vocabulary of the properties\<close>

text \<open>
  The spec names seven kinds of failure. The source has one error value,
  \<^verbatim>\<open>protocol.ErrInvalidAttestation\<close>, and tells its failures apart by the debug
  detail it attaches at each return statement. The definitions below name the errors of
  those return statements after the spec's kinds, and the conditions under which a run
  gets as far as a given stage.
\<close>

subsection \<open>Errors by return statement\<close>

text \<open>The debug details of lines 37, 41, 45, 50 and 54, and the errors that carry them.\<close>
definition MalformedStatement_details :: "string set" where
  "MalformedStatement_details =
     {''missing ver for android-safetynet'',
      ''invalid ver for android-safetynet'',
      ''missing response for android-safetynet'',
      ''invalid response for android-safetynet, is of invalid type []uint8''} \<union>
     range (\<lambda>v. ''invalid ver for android-safetynet, is of invalid type '' @ type_name v)"

definition MalformedStatement :: "env \<Rightarrow> Error set" where
  "MalformedStatement e = WithDebug (ErrInvalidAttestation e) ` MalformedStatement_details"

text \<open>The debug details of lines 59 and 63, and the errors that carry them.\<close>
definition MalformedSignature_details :: "string set" where
  "MalformedSignature_details =
     insert ''invalid response for android-safetynet: more or less than 1 signature''
       (range (\<lambda>er. ''invalid response for android-safetynet: '' @ Error_msg er))"

definition MalformedSignature :: "env \<Rightarrow> Error set" where
  "MalformedSignature e = WithDebug (ErrInvalidAttestation e) ` MalformedSignature_details"




text \<open>The error values of lines 92 and 97.\<close>
definition NonceMismatch :: "env \<Rightarrow> Error" where
  "NonceMismatch e = WithDebug (ErrInvalidAttestation e)
     ''invalid response for android-safetynet: invalid nonce''"

definition IntegrityPolicyViolation :: "env \<Rightarrow> Error" where
  "IntegrityPolicyViolation e = WithDebug (ErrInvalidAttestation e)
     ''invalid response for android-safetynet: does not match CTS profile''"


subsection \<open>How far a run gets\<close>

text \<open>
  \<open>stages_succeed identity e g a s responseBytes response leaf payload ar\<close>: the statement
  has a non-empty version string and the response bytes; these parse to \<open>response\<close> with
  exactly one signature; chain validation for \<open>identity\<close> at the time the clock shows in
  \<open>s\<close> returns a chain that starts with \<open>leaf\<close>; the signature verifies under the leaf's
  key and yields \<open>payload\<close>, which decodes to \<open>ar\<close>.
\<close>
definition stages_succeed ::
  "string \<Rightarrow> env \<Rightarrow> 'w globals \<Rightarrow> Attestation \<Rightarrow> 'w world \<Rightarrow> bytes \<Rightarrow> JSONWebSignature
     \<Rightarrow> Certificate \<Rightarrow> bytes \<Rightarrow> AndroidSafetyNetAttestionResponse \<Rightarrow> bool" where
  "stages_succeed identity e g a s responseBytes response leaf payload ar \<longleftrightarrow>
     (case AttStmt a ''ver'' of Some (VString ver) \<Rightarrow> ver \<noteq> [] | _ \<Rightarrow> False) \<and>
     AttStmt a ''response'' = Some (VBytes responseBytes) \<and>
     ParseSigned e (string_of_bytes responseBytes) = Inr response \<and>
     length (Signatures response) = 1 \<and>
     (case Certificates e (Protected (Signatures response ! 0))
             \<lparr>DNSName = identity, CurrentTime = fst (now g (ambient s))\<rparr> of
        Inr ((l # _) # _) \<Rightarrow> l = leaf
      | _ \<Rightarrow> False) \<and>
     Verify e response (PublicKey leaf) = Inr payload \<and>
     Unmarshal e payload = Inr ar"

text \<open>No stage before chain validation fails (lines 35-64 pass).\<close>
definition reaches_chain_validation :: "env \<Rightarrow> Attestation \<Rightarrow> bool" where
  "reaches_chain_validation e a \<longleftrightarrow>
     (case AttStmt a ''ver'' of
        None \<Rightarrow> False
      | Some rawVer \<Rightarrow>
     (case assert_string rawVer of
        None \<Rightarrow> False
      | Some ver \<Rightarrow>
     ver \<noteq> [] \<and>
     (case AttStmt a ''response'' of
        None \<Rightarrow> False
      | Some rawResponse \<Rightarrow>
     (case assert_bytes rawResponse of
        None \<Rightarrow> False
      | Some responseBytes \<Rightarrow>
     (case ParseSigned e (string_of_bytes responseBytes) of
        Inl er \<Rightarrow> False
      | Inr response \<Rightarrow> length (Signatures response) = 1)))))"

text \<open>
  The function stops at the signature-structure check: it returns one of the errors of
  lines 59 and 63, having called the parser and nothing after it. (The error value alone
  does not tell line 59 from line 84, where the same format is used: the call log does.)
\<close>
definition fails_with_MalformedSignature ::
  "env \<Rightarrow> 'w globals \<Rightarrow> Attestation \<Rightarrow> bytes \<Rightarrow> 'w world \<Rightarrow> bytes \<Rightarrow> bool" where
  "fails_with_MalformedSignature e g a clientDataHash s responseBytes \<longleftrightarrow>
     (\<exists>x\<in>MalformedSignature e.
        verifyAndroidSafetynet e g a clientDataHash s =
          (Return (Some x), record_call (CallParseSigned (string_of_bytes responseBytes)) s))"

subsection \<open>The spec's error taxonomy\<close>





subsection \<open>The call log of one invocation\<close>

text \<open>The calls one invocation adds to the log.\<close>
definition calls_made ::
  "env \<Rightarrow> 'w globals \<Rightarrow> Attestation \<Rightarrow> bytes \<Rightarrow> 'w world \<Rightarrow> call list" where
  "calls_made e g a clientDataHash s =
     drop (length (calls s)) (calls (snd (verifyAndroidSafetynet e g a clientDataHash s)))"

text \<open>The times read from the clock, and the times handed to chain validation, in a log.\<close>
fun clock_readings :: "call list \<Rightarrow> Time list" where
  "clock_readings [] = []"
| "clock_readings (CallNow t # cs) = t # clock_readings cs"
| "clock_readings (_ # cs) = clock_readings cs"

fun validation_times :: "call list \<Rightarrow> Time list" where
  "validation_times [] = []"
| "validation_times (CallCertificates h opts # cs) = CurrentTime opts # validation_times cs"
| "validation_times (_ # cs) = validation_times cs"

subsection \<open>Overriding the decoded basicIntegrity\<close>

text \<open>
  The environment in which the decoder gives, for the payload \<open>p\<close>, the struct \<open>ar\<close> with
  its basicIntegrity field set to \<open>b\<close>.
\<close>
definition with_BasicIntegrity ::
  "env \<Rightarrow> bytes \<Rightarrow> AndroidSafetyNetAttestionResponse \<Rightarrow> bool \<Rightarrow> env" where
  "with_BasicIntegrity e p ar b =
     e\<lparr>Unmarshal := (Unmarshal e)(p := Inr (ar\<lparr>BasicIntegrity := b\<rparr>))\<rparr>"

section \<open>A small concrete library for evaluating the model\<close>

definition android_leaf :: Certificate where
  "android_leaf =
     \<lparr>DNSNames = [''attest.android.com''], NotBefore = 100, NotAfter = 200, PublicKey = [7]\<rparr>"

definition example_leaf :: Certificate where
  "example_leaf =
     \<lparr>DNSNames = [''attest.example.com''], NotBefore = 100, NotAfter = 200, PublicKey = [7]\<rparr>"

text \<open>A certificate for the pinned name whose key is not the signer's.\<close>
definition other_key_leaf :: Certificate where
  "other_key_leaf =
     \<lparr>DNSNames = [''attest.android.com''], NotBefore = 100, NotAfter = 200, PublicKey = [8]\<rparr>"

definition demo_jws :: "Certificate \<Rightarrow> bytes \<Rightarrow> JSONWebSignature" where
  "demo_jws leaf p =
     \<lparr>jws_payload = p, Signatures = [\<lparr>Protected = \<lparr>certificates = [leaf]\<rparr>\<rparr>]\<rparr>"

text \<open>
  A table in place of a parser: \<open>''a''\<close> is a response signed under the android
  certificate, \<open>''x''\<close> the same under a certificate for attest.example.com, \<open>''c''\<close>
  one whose payload has ctsProfileMatch false, \<open>''p''\<close> one whose nonce is cut short,
  \<open>''k''\<close> one whose certificate carries another key than the signer's,
  \<open>''t''\<close> one with two signatures. A payload is the two flags (ctsProfileMatch,
  basicIntegrity) followed by the nonce.
\<close>
definition demo_ParseSigned :: "string \<Rightarrow> go_error + JSONWebSignature" where
  "demo_ParseSigned str =
     (if str = ''a'' then Inr (demo_jws android_leaf [1, 0, 3, 6])
      else if str = ''x'' then Inr (demo_jws example_leaf [1, 0, 3, 6])
      else if str = ''c'' then Inr (demo_jws android_leaf [0, 1, 3, 6])
      else if str = ''p'' then Inr (demo_jws android_leaf [1, 0, 3])
      else if str = ''k'' then Inr (demo_jws other_key_leaf [1, 0, 3, 6])
      else if str = ''t'' then
        Inr \<lparr>jws_payload = [1, 0, 3, 6],
             Signatures = [\<lparr>Protected = \<lparr>certificates = [android_leaf]\<rparr>\<rparr>,
                           \<lparr>Protected = \<lparr>certificates = [android_leaf]\<rparr>\<rparr>]\<rparr>
      else Inl (GoError ''square/go-jose: compact JWS format must have three parts''))"

definition demo_Certificates :: "Header \<Rightarrow> VerifyOptions \<Rightarrow> go_error + Certificate list list" where
  "demo_Certificates h opts =
     (case certificates h of
        [] \<Rightarrow> Inl (GoError ''square/go-jose: no x5c header present in message'')
      | leaf # rest \<Rightarrow>
          if DNSName opts \<notin> set (DNSNames leaf) then
            Inl (GoError ''x509: certificate is not valid for the requested name'')
          else if CurrentTime opts < NotBefore leaf \<or> NotAfter leaf < CurrentTime opts then
            Inl (GoError ''x509: certificate has expired or is not yet valid'')
          else Inr [leaf # rest])"

definition demo_Verify :: "JSONWebSignature \<Rightarrow> bytes \<Rightarrow> go_error + bytes" where
  "demo_Verify response key =
     (if key = [7] then Inr (jws_payload response)
      else Inl (GoError ''square/go-jose: error in cryptographic primitive''))"

definition demo_Unmarshal :: "bytes \<Rightarrow> go_error + AndroidSafetyNetAttestionResponse" where
  "demo_Unmarshal p =
     (case p of
        cts # basic # nonce \<Rightarrow>
          Inr \<lparr>Nonce = nonce, TimestampMs = 0, ApkPackageName = [], ApkDigestSha256 = [],
               CtsProfileMatch = (cts \<noteq> 0), ApkCertificateDigestSha256 = [],
               BasicIntegrity = (basic \<noteq> 0)\<rparr>
      | _ \<Rightarrow> Inl (GoError ''unexpected end of JSON input''))"

text \<open>A stand-in digest: the length and the sum of the bytes.\<close>
definition demo_Sum256 :: "bytes \<Rightarrow> bytes" where
  "demo_Sum256 b = [of_nat (length b), sum_list b]"

definition demo_env :: env where
  "demo_env =
     \<lparr>ErrInvalidAttestation = \<lparr>err = ''invalid_attestation'', debug = [], cause = None\<rparr>,
      ParseSigned = demo_ParseSigned,
      Certificates = demo_Certificates,
      Verify = demo_Verify,
      Unmarshal = demo_Unmarshal,
      Sum256 = demo_Sum256\<rparr>"

text \<open>A test clock fixed at 150; its world counts the readings taken.\<close>
definition demo_globals :: "nat globals" where
  "demo_globals = \<lparr>now = (\<lambda>n. (150, Suc n))\<rparr>"

definition demo_world :: "nat world" where
  "demo_world = \<lparr>ambient = 0, calls = []\<rparr>"

definition demo_attestation :: "bytes \<Rightarrow> string \<Rightarrow> bytes \<Rightarrow> Attestation" where
  "demo_attestation raw ver responseBytes =
     \<lparr>AuthData = \<lparr>Raw = raw\<rparr>,
      AttStmt = [''ver'' \<mapsto> VString ver, ''response'' \<mapsto> VBytes responseBytes]\<rparr>"

definition demo_response :: AndroidSafetyNetAttestionResponse where
  "demo_response =
     \<lparr>Nonce = [3, 6], TimestampMs = 0, ApkPackageName = [], ApkDigestSha256 = [],
      CtsProfileMatch = True, ApkCertificateDigestSha256 = [], BasicIntegrity = False\<rparr>"

lemmas demo_defs =
  demo_env_def demo_globals_def demo_world_def demo_attestation_def demo_ParseSigned_def
  demo_Certificates_def demo_Verify_def demo_Unmarshal_def demo_Sum256_def demo_jws_def
  android_leaf_def example_leaf_def other_key_leaf_def demo_response_def string_of_bytes_def char_of_def
  bit_iff_odd

section \<open>The paths through the function\<close>



lemma WithDebug_debug: "debug (WithDebug x d) = d"
  by (simp add: WithDebug_def)

lemma WithDebug_eq_iff: "WithDebug x d = WithDebug x d' \<longleftrightarrow> d = d'"
  by (metis WithDebug_debug)

lemma calls_record_call: "calls (record_call c s) = calls s @ [c]"
  by (simp add: record_call_def)

lemma MalformedStatement_details_fixed:
  "''missing ver for android-safetynet'' \<in> MalformedStatement_details"
  "''invalid ver for android-safetynet'' \<in> MalformedStatement_details"
  "''missing response for android-safetynet'' \<in> MalformedStatement_details"
  "''invalid response for android-safetynet, is of invalid type []uint8''
     \<in> MalformedStatement_details"
  unfolding MalformedStatement_details_def by simp_all

lemma MalformedStatement_details_type:
  "''invalid ver for android-safetynet, is of invalid type '' @ type_name v
     \<in> MalformedStatement_details"
  unfolding MalformedStatement_details_def by (rule UnI2) (rule rangeI)

lemma MalformedSignature_details_count:
  "''invalid response for android-safetynet: more or less than 1 signature''
     \<in> MalformedSignature_details"
  unfolding MalformedSignature_details_def by (rule insertI1)

lemma MalformedSignature_details_parse:
  "''invalid response for android-safetynet: '' @ Error_msg er \<in> MalformedSignature_details"
  unfolding MalformedSignature_details_def by (rule insertI2) (rule rangeI)

lemma verify_missing_ver:
  assumes "AttStmt a ''ver'' = None"
  shows "verifyAndroidSafetynet e g a clientDataHash s =
    (Return (Some (WithDebug (ErrInvalidAttestation e) ''missing ver for android-safetynet'')), s)"
  unfolding verifyAndroidSafetynet_def by (simp add: assms)

lemma verify_ver_not_string:
  assumes "AttStmt a ''ver'' = Some rawVer" "assert_string rawVer = None"
  shows "verifyAndroidSafetynet e g a clientDataHash s =
    (Return (Some (WithDebug (ErrInvalidAttestation e)
       (''invalid ver for android-safetynet, is of invalid type '' @ type_name rawVer))), s)"
  unfolding verifyAndroidSafetynet_def by (simp add: assms)

lemma verify_ver_empty:
  assumes "AttStmt a ''ver'' = Some rawVer" "assert_string rawVer = Some []"
  shows "verifyAndroidSafetynet e g a clientDataHash s =
    (Return (Some (WithDebug (ErrInvalidAttestation e) ''invalid ver for android-safetynet'')), s)"
  unfolding verifyAndroidSafetynet_def by (simp add: assms)

lemma verify_missing_response:
  assumes "AttStmt a ''ver'' = Some rawVer" "assert_string rawVer = Some ver" "ver \<noteq> []"
    and "AttStmt a ''response'' = None"
  shows "verifyAndroidSafetynet e g a clientDataHash s =
    (Return (Some (WithDebug (ErrInvalidAttestation e)
       ''missing response for android-safetynet'')), s)"
  unfolding verifyAndroidSafetynet_def by (simp add: assms)

lemma verify_response_not_bytes:
  assumes "AttStmt a ''ver'' = Some rawVer" "assert_string rawVer = Some ver" "ver \<noteq> []"
    and "AttStmt a ''response'' = Some rawResponse" "assert_bytes rawResponse = None"
  shows "verifyAndroidSafetynet e g a clientDataHash s =
    (Return (Some (WithDebug (ErrInvalidAttestation e)
       ''invalid response for android-safetynet, is of invalid type []uint8'')), s)"
  unfolding verifyAndroidSafetynet_def by (simp add: assms)

lemma verify_parse_error:
  assumes "AttStmt a ''ver'' = Some (VString ver)" "ver \<noteq> []"
    and "AttStmt a ''response'' = Some (VBytes responseBytes)"
    and "ParseSigned e (string_of_bytes responseBytes) = Inl er"
  shows "verifyAndroidSafetynet e g a clientDataHash s =
    (Return (Some (WithDebug (ErrInvalidAttestation e)
       (''invalid response for android-safetynet: '' @ Error_msg er))),
     record_call (CallParseSigned (string_of_bytes responseBytes)) s)"
  unfolding verifyAndroidSafetynet_def by (simp add: assms)

lemma verify_signature_count:
  assumes "AttStmt a ''ver'' = Some (VString ver)" "ver \<noteq> []"
    and "AttStmt a ''response'' = Some (VBytes responseBytes)"
    and "ParseSigned e (string_of_bytes responseBytes) = Inr response"
    and "length (Signatures response) \<noteq> 1"
  shows "verifyAndroidSafetynet e g a clientDataHash s =
    (Return (Some (WithDebug (ErrInvalidAttestation e)
       ''invalid response for android-safetynet: more or less than 1 signature'')),
     record_call (CallParseSigned (string_of_bytes responseBytes)) s)"
  using assms unfolding verifyAndroidSafetynet_def by simp

lemma verify_reaches_chain:
  assumes "AttStmt a ''ver'' = Some (VString ver)" "ver \<noteq> []"
    and "AttStmt a ''response'' = Some (VBytes responseBytes)"
    and "ParseSigned e (string_of_bytes responseBytes) = Inr response"
    and "length (Signatures response) = 1"
  shows "\<exists>later. calls (snd (verifyAndroidSafetynet e g a clientDataHash s)) =
    calls s @
      [CallParseSigned (string_of_bytes responseBytes),
       CallNow (fst (now g (ambient s))),
       CallCertificates (Protected (Signatures response ! 0))
         \<lparr>DNSName = ''attest.android.com'', CurrentTime = fst (now g (ambient s))\<rparr>] @ later"
  using assms unfolding verifyAndroidSafetynet_def
  by (simp add: Let_def record_call_def
        split: sum.split list.split prod.split)

lemma verify_full_run:
  assumes "AttStmt a ''ver'' = Some (VString ver)" "ver \<noteq> []"
    and "AttStmt a ''response'' = Some (VBytes responseBytes)"
    and "ParseSigned e (string_of_bytes responseBytes) = Inr response"
    and "length (Signatures response) = 1"
    and "now g (ambient s) = (t, w)"
    and "Certificates e (Protected (Signatures response ! 0))
        \<lparr>DNSName = ''attest.android.com'', CurrentTime = t\<rparr> = Inr ((leaf # rest) # others)"
    and "Verify e response (PublicKey leaf) = Inr payload"
    and "Unmarshal e payload = Inr ar"
  shows "verifyAndroidSafetynet e g a clientDataHash s =
    (if Sum256 e (Raw (AuthData a) @ clientDataHash) \<noteq> Nonce ar then
       Return (Some (WithDebug (ErrInvalidAttestation e)
         ''invalid response for android-safetynet: invalid nonce''))
     else if \<not> CtsProfileMatch ar then
       Return (Some (WithDebug (ErrInvalidAttestation e)
         ''invalid response for android-safetynet: does not match CTS profile''))
     else Return None,
     s\<lparr>ambient := w,
       calls := calls s @
          [CallParseSigned (string_of_bytes responseBytes),
           CallNow t,
           CallCertificates (Protected (Signatures response ! 0))
             \<lparr>DNSName = ''attest.android.com'', CurrentTime = t\<rparr>,
           CallVerify response (PublicKey leaf),
           CallUnmarshal payload,
           CallSum256 (Raw (AuthData a) @ clientDataHash)]\<rparr>)"
  using assms unfolding verifyAndroidSafetynet_def
  by (simp add: Let_def record_call_def)

subsection \<open>Runs in which every stage before the binding check succeeds\<close>

lemma stages_succeed_ver:
  assumes "stages_succeed identity e g a s responseBytes response leaf payload ar"
  obtains ver where "AttStmt a ''ver'' = Some (VString ver)" "ver \<noteq> []"
  using assms unfolding stages_succeed_def
  by (auto split: option.splits go_value.splits)

lemma stages_succeed_chain:
  assumes "stages_succeed identity e g a s responseBytes response leaf payload ar"
  obtains rest others where
    "Certificates e (Protected (Signatures response ! 0))
       \<lparr>DNSName = identity, CurrentTime = fst (now g (ambient s))\<rparr> = Inr ((leaf # rest) # others)"
  using assms unfolding stages_succeed_def
  by (auto split: sum.splits list.splits)

lemma verify_after_stages:
  assumes "stages_succeed ''attest.android.com'' e g a s responseBytes response leaf payload ar"
  shows "verifyAndroidSafetynet e g a clientDataHash s =
    (if Sum256 e (Raw (AuthData a) @ clientDataHash) \<noteq> Nonce ar then
       Return (Some (NonceMismatch e))
     else if \<not> CtsProfileMatch ar then Return (Some (IntegrityPolicyViolation e))
     else Return None,
     s\<lparr>ambient := snd (now g (ambient s)),
       calls := calls s @
          [CallParseSigned (string_of_bytes responseBytes),
           CallNow (fst (now g (ambient s))),
           CallCertificates (Protected (Signatures response ! 0))
             \<lparr>DNSName = ''attest.android.com'', CurrentTime = fst (now g (ambient s))\<rparr>,
           CallVerify response (PublicKey leaf),
           CallUnmarshal payload,
           CallSum256 (Raw (AuthData a) @ clientDataHash)]\<rparr>)"
proof -
  obtain ver where ver: "AttStmt a ''ver'' = Some (VString ver)" "ver \<noteq> []"
    using assms by (rule stages_succeed_ver)
  obtain rest others where chn:
    "Certificates e (Protected (Signatures response ! 0))
       \<lparr>DNSName = ''attest.android.com'', CurrentTime = fst (now g (ambient s))\<rparr> =
     Inr ((leaf # rest) # others)"
    using assms by (rule stages_succeed_chain)
  have rest_facts:
    "AttStmt a ''response'' = Some (VBytes responseBytes)"
    "ParseSigned e (string_of_bytes responseBytes) = Inr response"
    "length (Signatures response) = 1"
    "Verify e response (PublicKey leaf) = Inr payload"
    "Unmarshal e payload = Inr ar"
    using assms unfolding stages_succeed_def by simp_all
  have clock: "now g (ambient s) = (fst (now g (ambient s)), snd (now g (ambient s)))"
    by simp
  show ?thesis
    unfolding NonceMismatch_def IntegrityPolicyViolation_def
    by (rule verify_full_run [OF ver rest_facts(1-3) clock chn rest_facts(4-5)])
qed

lemma NonceMismatch_neq_IntegrityPolicyViolation:
  "NonceMismatch e \<noteq> IntegrityPolicyViolation e"
  unfolding NonceMismatch_def IntegrityPolicyViolation_def
  by (simp add: WithDebug_eq_iff)

lemma stages_succeed_with_BasicIntegrity:
  assumes "stages_succeed identity e g a s responseBytes response leaf payload ar"
  shows "stages_succeed identity (with_BasicIntegrity e payload ar b) g a s responseBytes
           response leaf payload (ar\<lparr>BasicIntegrity := b\<rparr>)"
  using assms unfolding stages_succeed_def with_BasicIntegrity_def by simp

subsection \<open>Runs of the concrete library\<close>

lemma demo_stages_succeed:
  "stages_succeed ''attest.android.com'' demo_env demo_globals
     (demo_attestation [1, 2] ''14'' [97]) demo_world [97]
     (demo_jws android_leaf [1, 0, 3, 6]) android_leaf [1, 0, 3, 6] demo_response"
  by (simp add: stages_succeed_def demo_defs)

lemma demo_stages_succeed_cts_false:
  "stages_succeed ''attest.android.com'' demo_env demo_globals
     (demo_attestation [1, 2] ''14'' [99]) demo_world [99]
     (demo_jws android_leaf [0, 1, 3, 6]) android_leaf [0, 1, 3, 6]
     (demo_response\<lparr>CtsProfileMatch := False, BasicIntegrity := True\<rparr>)"
  by (simp add: stages_succeed_def demo_defs)

lemma demo_stages_succeed_shifted:
  "stages_succeed ''attest.android.com'' demo_env demo_globals
     (demo_attestation [1] ''14'' [97]) demo_world [97]
     (demo_jws android_leaf [1, 0, 3, 6]) android_leaf [1, 0, 3, 6] demo_response"
  by (simp add: stages_succeed_def demo_defs)


lemma demo_stages_succeed_short_nonce:
  "stages_succeed ''attest.android.com'' demo_env demo_globals
     (demo_attestation [1, 2] ''14'' [112]) demo_world [112]
     (demo_jws android_leaf [1, 0, 3]) android_leaf [1, 0, 3] (demo_response\<lparr>Nonce := [3]\<rparr>)"
  by (simp add: stages_succeed_def demo_defs)

section \<open>The properties\<close>

subsection \<open>End-to-end success\<close>

text \<open>
  C1, as amended. The pinned identity of line 68 is attest.android.com. For a statement
  with version string "14" whose response parses with one signature, whose chain is valid
  for attest.android.com at the clock time, whose signature verifies and whose payload
  decodes with ctsProfileMatch true and a nonce equal to the digest of
  authenticatorData.raw followed by clientDataHash, the function returns nil.
\<close>
theorem C1_end_to_end_success:
  assumes "AttStmt a ''ver'' = Some (VString ''14'')"
    and "stages_succeed ''attest.android.com'' e g a s responseBytes response leaf payload ar"
    and "CtsProfileMatch ar"
    and "Nonce ar = Sum256 e (Raw (AuthData a) @ clientDataHash)"
  shows "fst (verifyAndroidSafetynet e g a clientDataHash s) = Return None"
  unfolding verify_after_stages [OF assms(2)] using assms(3,4) by simp

theorem C1_end_to_end_success_witness:
  "AttStmt (demo_attestation [1, 2] ''14'' [97]) ''ver'' = Some (VString ''14'') \<and>
   stages_succeed ''attest.android.com'' demo_env demo_globals
     (demo_attestation [1, 2] ''14'' [97]) demo_world [97]
     (demo_jws android_leaf [1, 0, 3, 6]) android_leaf [1, 0, 3, 6] demo_response \<and>
   CtsProfileMatch demo_response \<and>
   Nonce demo_response = Sum256 demo_env (Raw (AuthData (demo_attestation [1, 2] ''14'' [97])) @ [3]) \<and>
   fst (verifyAndroidSafetynet demo_env demo_globals
          (demo_attestation [1, 2] ''14'' [97]) [3] demo_world) = Return None"
proof -
  have ver: "AttStmt (demo_attestation [1, 2] ''14'' [97]) ''ver'' = Some (VString ''14'')"
    by (simp add: demo_attestation_def)
  have cts: "CtsProfileMatch demo_response"
    by (simp add: demo_response_def)
  have nonce: "Nonce demo_response =
      Sum256 demo_env (Raw (AuthData (demo_attestation [1, 2] ''14'' [97])) @ [3])"
    by (simp add: demo_defs)
  show ?thesis
    using C1_end_to_end_success [OF ver demo_stages_succeed cts nonce]
      ver demo_stages_succeed cts nonce
    by simp
qed

text \<open>
  C1 as stated fails: a response that satisfies every condition of the scenario with a
  chain valid for attest.example.com (and not for attest.android.com) is rejected at chain
  validation.
\<close>
theorem C1_example_com_counterexample:
  "AttStmt (demo_attestation [1, 2] ''14'' [120]) ''ver'' = Some (VString ''14'') \<and>
   stages_succeed ''attest.example.com'' demo_env demo_globals
     (demo_attestation [1, 2] ''14'' [120]) demo_world [120]
     (demo_jws example_leaf [1, 0, 3, 6]) example_leaf [1, 0, 3, 6] demo_response \<and>
   CtsProfileMatch demo_response \<and>
   Nonce demo_response = Sum256 demo_env (Raw (AuthData (demo_attestation [1, 2] ''14'' [120])) @ [3]) \<and>
   fst (verifyAndroidSafetynet demo_env demo_globals
          (demo_attestation [1, 2] ''14'' [120]) [3] demo_world) =
     Return (Some
       \<lparr>err = ''invalid_attestation'',
        debug = ''invalid response for android-safetynet: x509: certificate is not valid for the requested name'',
        cause = Some (GoError ''x509: certificate is not valid for the requested name'')\<rparr>) \<and>
   fst (verifyAndroidSafetynet demo_env demo_globals
          (demo_attestation [1, 2] ''14'' [120]) [3] demo_world) \<noteq> Return None"
  by (simp add: stages_succeed_def verifyAndroidSafetynet_def demo_defs WithDebug_def
        WithCause_def record_call_def Let_def)

subsection \<open>Error kinds\<close>















subsection \<open>Nonce binding\<close>

text \<open>
  C3. When every earlier stage has succeeded, the digest is taken of the raw authenticator
  data followed directly by clientDataHash (the last external call of the run is Sum256
  on exactly that byte string), and the function fails with the invalid-nonce error if and
  only if that digest is not equal, as a byte sequence, to the nonce of the decoded
  payload.
\<close>
theorem C3_nonce_binding:
  assumes "stages_succeed ''attest.android.com'' e g a s responseBytes response leaf payload ar"
  shows "last (calls (snd (verifyAndroidSafetynet e g a clientDataHash s))) =
           CallSum256 (Raw (AuthData a) @ clientDataHash) \<and>
         (fst (verifyAndroidSafetynet e g a clientDataHash s) = Return (Some (NonceMismatch e))
            \<longleftrightarrow> Sum256 e (Raw (AuthData a) @ clientDataHash) \<noteq> Nonce ar)"
  unfolding verify_after_stages [OF assms]
  using NonceMismatch_neq_IntegrityPolicyViolation [of e] by simp

theorem C3_nonce_binding_witness:
  "stages_succeed ''attest.android.com'' demo_env demo_globals
     (demo_attestation [1, 2] ''14'' [97]) demo_world [97]
     (demo_jws android_leaf [1, 0, 3, 6]) android_leaf [1, 0, 3, 6] demo_response \<and>
   fst (verifyAndroidSafetynet demo_env demo_globals
     (demo_attestation [1, 2] ''14'' [97]) [3] demo_world) \<noteq> Return (Some (NonceMismatch demo_env)) \<and>
   fst (verifyAndroidSafetynet demo_env demo_globals
     (demo_attestation [1, 2] ''14'' [97]) [3, 0] demo_world) = Return (Some (NonceMismatch demo_env)) \<and>
   Sum256 demo_env ([1, 2] @ [3]) = [3, 6] \<and>
   Nonce (demo_response\<lparr>Nonce := [3]\<rparr>) = [3] \<and>
   fst (verifyAndroidSafetynet demo_env demo_globals
     (demo_attestation [1, 2] ''14'' [112]) [3] demo_world) = Return (Some (NonceMismatch demo_env))"
  using C3_nonce_binding [OF demo_stages_succeed, of "[3]"]
    C3_nonce_binding [OF demo_stages_succeed, of "[3, 0]"]
    C3_nonce_binding [OF demo_stages_succeed_short_nonce, of "[3]"]
    demo_stages_succeed
  by (simp add: demo_defs)

subsection \<open>Integrity policy\<close>

text \<open>
  C4. With a valid chain, signature, decoded payload and matching nonce, the function
  fails with the CTS-profile error exactly when ctsProfileMatch is false and returns nil
  when it is true; whatever basicIntegrity the decoded payload carries, the result (and
  the call log) is the same.
\<close>
theorem C4_integrity_policy_gating:
  assumes "stages_succeed ''attest.android.com'' e g a s responseBytes response leaf payload ar"
    and "Sum256 e (Raw (AuthData a) @ clientDataHash) = Nonce ar"
  shows "(fst (verifyAndroidSafetynet e g a clientDataHash s) =
            Return (Some (IntegrityPolicyViolation e)) \<longleftrightarrow> \<not> CtsProfileMatch ar) \<and>
         (CtsProfileMatch ar \<longrightarrow>
            fst (verifyAndroidSafetynet e g a clientDataHash s) = Return None) \<and>
         (\<forall>b. verifyAndroidSafetynet (with_BasicIntegrity e payload ar b) g a clientDataHash s =
              verifyAndroidSafetynet e g a clientDataHash s)"
proof -
  have same: "verifyAndroidSafetynet (with_BasicIntegrity e payload ar b) g a clientDataHash s =
      verifyAndroidSafetynet e g a clientDataHash s" for b
    unfolding verify_after_stages [OF assms(1)]
      verify_after_stages [OF stages_succeed_with_BasicIntegrity [OF assms(1)]]
    by (simp add: with_BasicIntegrity_def NonceMismatch_def IntegrityPolicyViolation_def)
  show ?thesis
    using same assms(2) unfolding verify_after_stages [OF assms(1)] by simp
qed

theorem C4_integrity_policy_gating_witness:
  "stages_succeed ''attest.android.com'' demo_env demo_globals
     (demo_attestation [1, 2] ''14'' [99]) demo_world [99]
     (demo_jws android_leaf [0, 1, 3, 6]) android_leaf [0, 1, 3, 6]
     (demo_response\<lparr>CtsProfileMatch := False, BasicIntegrity := True\<rparr>) \<and>
   Sum256 demo_env (Raw (AuthData (demo_attestation [1, 2] ''14'' [99])) @ [3]) =
     Nonce (demo_response\<lparr>CtsProfileMatch := False, BasicIntegrity := True\<rparr>) \<and>
   fst (verifyAndroidSafetynet demo_env demo_globals
          (demo_attestation [1, 2] ''14'' [99]) [3] demo_world) =
     Return (Some (IntegrityPolicyViolation demo_env)) \<and>
   stages_succeed ''attest.android.com'' demo_env demo_globals
     (demo_attestation [1, 2] ''14'' [97]) demo_world [97]
     (demo_jws android_leaf [1, 0, 3, 6]) android_leaf [1, 0, 3, 6] demo_response \<and>
   Sum256 demo_env (Raw (AuthData (demo_attestation [1, 2] ''14'' [97])) @ [3]) =
     Nonce demo_response \<and>
   \<not> BasicIntegrity demo_response \<and>
   fst (verifyAndroidSafetynet demo_env demo_globals
          (demo_attestation [1, 2] ''14'' [97]) [3] demo_world) = Return None"
proof -
  have n1: "Sum256 demo_env (Raw (AuthData (demo_attestation [1, 2] ''14'' [99])) @ [3]) =
     Nonce (demo_response\<lparr>CtsProfileMatch := False, BasicIntegrity := True\<rparr>)"
    by (simp add: demo_defs)
  have n2: "Sum256 demo_env (Raw (AuthData (demo_attestation [1, 2] ''14'' [97])) @ [3]) =
     Nonce demo_response"
    by (simp add: demo_defs)
  have flags: "CtsProfileMatch demo_response" "\<not> BasicIntegrity demo_response"
    by (simp_all add: demo_response_def)
  show ?thesis
    using C4_integrity_policy_gating [OF demo_stages_succeed_cts_false n1]
      C4_integrity_policy_gating [OF demo_stages_succeed n2]
      demo_stages_succeed_cts_false demo_stages_succeed n1 n2 flags
    by simp
qed

subsection \<open>Statement extraction\<close>

lemma extraction_failure:
  assumes "AttStmt a ''ver'' = None \<or> AttStmt a ''response'' = None \<or>
           (\<exists>v. AttStmt a ''ver'' = Some v \<and> assert_string v = None) \<or>
           AttStmt a ''ver'' = Some (VString []) \<or>
           (\<exists>v. AttStmt a ''response'' = Some v \<and> assert_bytes v = None)"
  shows "\<exists>d\<in>MalformedStatement_details. \<forall>e (g :: 'w globals) clientDataHash s.
           verifyAndroidSafetynet e g a clientDataHash s =
             (Return (Some (WithDebug (ErrInvalidAttestation e) d)), s)"
proof (cases "AttStmt a ''ver''")
  case None
  show ?thesis
    by (rule bexI [OF _ MalformedStatement_details_fixed(1)])
       (simp add: verify_missing_ver [OF None])
next
  case (Some rawVer)
  note raw = this
  show ?thesis
  proof (cases "assert_string rawVer")
    case None
    show ?thesis
      by (rule bexI [OF _ MalformedStatement_details_type [of rawVer]])
         (simp add: verify_ver_not_string [OF raw None])
  next
    case (Some ver)
    note str = this
    show ?thesis
    proof (cases "ver = []")
      case True
      with str have empty: "assert_string rawVer = Some []" by simp
      show ?thesis
        by (rule bexI [OF _ MalformedStatement_details_fixed(2)])
           (simp add: verify_ver_empty [OF raw empty])
    next
      case False
      have rawVer: "rawVer = VString ver"
        using str by (cases rawVer) simp_all
      have "AttStmt a ''response'' = None \<or>
            (\<exists>v. AttStmt a ''response'' = Some v \<and> assert_bytes v = None)"
        using assms raw str False rawVer by simp
      then show ?thesis
      proof (elim disjE exE conjE)
        assume 1: "AttStmt a ''response'' = None"
        show ?thesis
          by (rule bexI [OF _ MalformedStatement_details_fixed(3)])
             (simp add: verify_missing_response [OF raw str False 1])
      next
        fix v
        assume 2: "AttStmt a ''response'' = Some v" "assert_bytes v = None"
        show ?thesis
          by (rule bexI [OF _ MalformedStatement_details_fixed(4)])
             (simp add: verify_response_not_bytes [OF raw str False 2])
      qed
    qed
  qed
qed

text \<open>
  C5. When "ver" or "response" is absent, or "ver" is not a string or is the empty
  string, or "response" is not a byte sequence, the function returns one of the errors
  of lines 37-54 and leaves the world as it was: nothing was called and the clock was not
  read; no library function and no clock has any influence on the result.
\<close>
theorem C5_statement_extraction_failure:
  assumes "AttStmt a ''ver'' = None \<or> AttStmt a ''response'' = None \<or>
           (\<exists>v. AttStmt a ''ver'' = Some v \<and> assert_string v = None) \<or>
           AttStmt a ''ver'' = Some (VString []) \<or>
           (\<exists>v. AttStmt a ''response'' = Some v \<and> assert_bytes v = None)"
  shows "(\<exists>x\<in>MalformedStatement e.
            fst (verifyAndroidSafetynet e g a clientDataHash s) = Return (Some x)) \<and>
         snd (verifyAndroidSafetynet e g a clientDataHash s) = s \<and>
         (\<forall>e' g'. ErrInvalidAttestation e' = ErrInvalidAttestation e \<longrightarrow>
            verifyAndroidSafetynet e' (g' :: 'w globals) a clientDataHash s =
            verifyAndroidSafetynet e g a clientDataHash s)"
proof -
  from extraction_failure [OF assms, where 'w = 'w]
  obtain d where d: "d \<in> MalformedStatement_details"
    and every: "\<forall>e (g :: 'w globals) clientDataHash s.
           verifyAndroidSafetynet e g a clientDataHash s =
             (Return (Some (WithDebug (ErrInvalidAttestation e) d)), s)" ..
  have run: "verifyAndroidSafetynet e g a clientDataHash s =
      (Return (Some (WithDebug (ErrInvalidAttestation e) d)), s)"
    for e and g :: "'w globals" and clientDataHash s
    using every by (elim allE)
  have "WithDebug (ErrInvalidAttestation e) d \<in> MalformedStatement e"
    unfolding MalformedStatement_def using d by (rule imageI)
  then have "\<exists>x\<in>MalformedStatement e.
      fst (verifyAndroidSafetynet e g a clientDataHash s) = Return (Some x)"
    by (simp add: run)
  moreover have "snd (verifyAndroidSafetynet e g a clientDataHash s) = s"
    by (simp add: run)
  moreover have "\<forall>e' g'. ErrInvalidAttestation e' = ErrInvalidAttestation e \<longrightarrow>
      verifyAndroidSafetynet e' (g' :: 'w globals) a clientDataHash s =
      verifyAndroidSafetynet e g a clientDataHash s"
    by (simp add: run)
  ultimately show ?thesis by (intro conjI)
qed

theorem C5_statement_extraction_failure_witness:
  "AttStmt (demo_attestation [1, 2] [] [97]) ''ver'' = Some (VString []) \<and>
   fst (verifyAndroidSafetynet demo_env demo_globals
          (demo_attestation [1, 2] [] [97]) [3] demo_world) =
     Return (Some (WithDebug (ErrInvalidAttestation demo_env)
       ''invalid ver for android-safetynet'')) \<and>
   snd (verifyAndroidSafetynet demo_env demo_globals
          (demo_attestation [1, 2] [] [97]) [3] demo_world) = demo_world"
proof -
  have ver: "AttStmt (demo_attestation [1, 2] [] [97]) ''ver'' = Some (VString [])"
    by (simp add: demo_attestation_def)
  have hyp: "AttStmt (demo_attestation [1, 2] [] [97]) ''ver'' = None \<or>
      AttStmt (demo_attestation [1, 2] [] [97]) ''response'' = None \<or>
      (\<exists>v. AttStmt (demo_attestation [1, 2] [] [97]) ''ver'' = Some v \<and> assert_string v = None) \<or>
      AttStmt (demo_attestation [1, 2] [] [97]) ''ver'' = Some (VString []) \<or>
      (\<exists>v. AttStmt (demo_attestation [1, 2] [] [97]) ''response'' = Some v \<and>
           assert_bytes v = None)"
    using ver by simp
  have str: "assert_string (VString []) = Some []"
    by simp
  have run: "fst (verifyAndroidSafetynet demo_env demo_globals
          (demo_attestation [1, 2] [] [97]) [3] demo_world) =
     Return (Some (WithDebug (ErrInvalidAttestation demo_env)
       ''invalid ver for android-safetynet''))"
    by (simp add: verify_ver_empty [OF ver str])
  have unchanged: "snd (verifyAndroidSafetynet demo_env demo_globals
          (demo_attestation [1, 2] [] [97]) [3] demo_world) = demo_world"
    using C5_statement_extraction_failure [OF hyp, of demo_env demo_globals "[3]" demo_world]
    by (elim conjE)
  show ?thesis
    using ver run unchanged by (intro conjI)
qed

subsection \<open>Signature structure\<close>

text \<open>
  C6. After a successful extraction the function fails at the signature-structure check
  exactly when the parser returns an error or the parsed structure does not have exactly
  one signature; with exactly one signature it goes on to chain validation: it reads the
  clock and calls Certificates on the protected header of that signature.
\<close>
theorem C6_signature_structure:
  assumes "AttStmt a ''ver'' = Some (VString ver)" "ver \<noteq> []"
    and "AttStmt a ''response'' = Some (VBytes responseBytes)"
  shows "(fails_with_MalformedSignature e g a clientDataHash s responseBytes \<longleftrightarrow>
            (case ParseSigned e (string_of_bytes responseBytes) of
               Inl er \<Rightarrow> True
             | Inr response \<Rightarrow> length (Signatures response) \<noteq> 1)) \<and>
         (case ParseSigned e (string_of_bytes responseBytes) of
            Inl er \<Rightarrow> True
          | Inr response \<Rightarrow>
              length (Signatures response) = 1 \<longrightarrow>
              take 3 (drop (length (calls s))
                 (calls (snd (verifyAndroidSafetynet e g a clientDataHash s)))) =
                [CallParseSigned (string_of_bytes responseBytes),
                 CallNow (fst (now g (ambient s))),
                 CallCertificates (Protected (Signatures response ! 0))
                   \<lparr>DNSName = ''attest.android.com'',
                    CurrentTime = fst (now g (ambient s))\<rparr>])"
proof (cases "ParseSigned e (string_of_bytes responseBytes)")
  case (Inl er)
  have "fails_with_MalformedSignature e g a clientDataHash s responseBytes"
    unfolding fails_with_MalformedSignature_def MalformedSignature_def
      verify_parse_error [OF assms Inl]
    using MalformedSignature_details_parse [of er] by simp
  with Inl show ?thesis by simp
next
  case (Inr response)
  show ?thesis
  proof (cases "length (Signatures response) = 1")
    case False
    have "fails_with_MalformedSignature e g a clientDataHash s responseBytes"
      unfolding fails_with_MalformedSignature_def MalformedSignature_def
        verify_signature_count [OF assms Inr False]
      using MalformedSignature_details_count by simp
    with Inr False show ?thesis by simp
  next
    case True
    obtain later where later:
      "calls (snd (verifyAndroidSafetynet e g a clientDataHash s)) =
         calls s @
           [CallParseSigned (string_of_bytes responseBytes),
            CallNow (fst (now g (ambient s))),
            CallCertificates (Protected (Signatures response ! 0))
              \<lparr>DNSName = ''attest.android.com'', CurrentTime = fst (now g (ambient s))\<rparr>] @
           later"
      using verify_reaches_chain [OF assms Inr True] ..
    have "length (calls (snd (verifyAndroidSafetynet e g a clientDataHash s))) \<noteq>
        length (calls (record_call (CallParseSigned (string_of_bytes responseBytes)) s))"
      unfolding later calls_record_call by simp
    then have "\<not> fails_with_MalformedSignature e g a clientDataHash s responseBytes"
      unfolding fails_with_MalformedSignature_def by (metis snd_conv)
    moreover have "take 3 (drop (length (calls s))
        (calls (snd (verifyAndroidSafetynet e g a clientDataHash s)))) =
        [CallParseSigned (string_of_bytes responseBytes),
         CallNow (fst (now g (ambient s))),
         CallCertificates (Protected (Signatures response ! 0))
           \<lparr>DNSName = ''attest.android.com'', CurrentTime = fst (now g (ambient s))\<rparr>]"
      unfolding later by simp
    ultimately show ?thesis
      using Inr True by simp
  qed
qed

theorem C6_signature_structure_witness:
  "AttStmt (demo_attestation [1, 2] ''14'' [116]) ''ver'' = Some (VString ''14'') \<and>
   AttStmt (demo_attestation [1, 2] ''14'' [116]) ''response'' = Some (VBytes [116]) \<and>
   fails_with_MalformedSignature demo_env demo_globals
     (demo_attestation [1, 2] ''14'' [116]) [3] demo_world [116] \<and>
   fails_with_MalformedSignature demo_env demo_globals
     (demo_attestation [1, 2] ''14'' [98]) [3] demo_world [98] \<and>
   \<not> fails_with_MalformedSignature demo_env demo_globals
     (demo_attestation [1, 2] ''14'' [97]) [3] demo_world [97]"
proof -
  have ver: "AttStmt (demo_attestation raw ''14'' rb) ''ver'' = Some (VString ''14'')"
    for raw rb
    by (simp add: demo_attestation_def)
  have ne: "''14'' \<noteq> []"
    by simp
  have resp: "AttStmt (demo_attestation raw ''14'' rb) ''response'' = Some (VBytes rb)"
    for raw rb
    by (simp add: demo_attestation_def)
  note C6 = C6_signature_structure [where e = demo_env and g = demo_globals
      and clientDataHash = "[3]" and s = demo_world]
  show ?thesis
    using C6 [OF ver [of "[1, 2]" "[116]"] ne resp [of "[1, 2]" "[116]"]]
      C6 [OF ver [of "[1, 2]" "[98]"] ne resp [of "[1, 2]" "[98]"]]
      C6 [OF ver [of "[1, 2]" "[97]"] ne resp [of "[1, 2]" "[97]"]]
      ver resp
    by (simp add: demo_defs)
qed

subsection \<open>Binding soundness\<close>




text \<open>
  When both components change, the hashed byte string can stay the same: the pair
  \<open>([1], [2, 3])\<close> verifies against the payload captured for \<open>([1, 2], [3])\<close>.
\<close>
lemma boundary_shift_verifies:
  "fst (verifyAndroidSafetynet demo_env demo_globals
          (demo_attestation [1] ''14'' [97]) [2, 3] demo_world) = Return None"
  unfolding verify_after_stages [OF demo_stages_succeed_shifted]
  by (simp add: demo_defs)




subsection \<open>Determinism\<close>

text \<open>
  C8. Two invocations on the same statement, authenticator data and clientDataHash, with
  the same libraries (each a function of its arguments), started in any two worlds in
  which the clock shows the same time, return the same result: the same nil or the same
  error value, kind and detail included, or both panic.
\<close>
theorem C8_determinism:
  assumes "fst (now g (ambient s1)) = fst (now g (ambient s2))"
  shows "fst (verifyAndroidSafetynet e g a clientDataHash s1) =
         fst (verifyAndroidSafetynet e g a clientDataHash s2)"
  using assms unfolding verifyAndroidSafetynet_def
  by (simp add: Let_def record_call_def case_prod_beta
        split: option.split sum.split list.split)

theorem C8_determinism_witness:
  "fst (now demo_globals (ambient demo_world)) =
     fst (now demo_globals (ambient (snd (verifyAndroidSafetynet demo_env demo_globals
       (demo_attestation [1, 2] ''14'' [97]) [3] demo_world)))) \<and>
   ambient (snd (verifyAndroidSafetynet demo_env demo_globals
       (demo_attestation [1, 2] ''14'' [97]) [3] demo_world)) \<noteq> ambient demo_world \<and>
   fst (verifyAndroidSafetynet demo_env demo_globals
          (demo_attestation [1, 2] ''14'' [97]) [3] demo_world) =
   fst (verifyAndroidSafetynet demo_env demo_globals
          (demo_attestation [1, 2] ''14'' [97]) [3]
          (snd (verifyAndroidSafetynet demo_env demo_globals
             (demo_attestation [1, 2] ''14'' [97]) [3] demo_world)))"
proof -
  have fixed: "fst (now demo_globals (ambient demo_world)) =
     fst (now demo_globals (ambient (snd (verifyAndroidSafetynet demo_env demo_globals
       (demo_attestation [1, 2] ''14'' [97]) [3] demo_world))))"
    by (simp add: demo_globals_def)
  have ticked: "ambient (snd (verifyAndroidSafetynet demo_env demo_globals
       (demo_attestation [1, 2] ''14'' [97]) [3] demo_world)) \<noteq> ambient demo_world"
    unfolding verify_after_stages [OF demo_stages_succeed]
    by (simp add: demo_globals_def demo_world_def)
  show ?thesis
    using C8_determinism [OF fixed] fixed ticked by (intro conjI)
qed

subsection \<open>The clock\<close>

lemma verify_log_prefix:
  "calls (snd (verifyAndroidSafetynet e g a clientDataHash s)) =
     calls s @ calls (snd (verifyAndroidSafetynet e g a clientDataHash (s\<lparr>calls := []\<rparr>)))"
  unfolding verifyAndroidSafetynet_def
  by (simp add: Let_def record_call_def case_prod_beta
        split: option.split sum.split list.split)

lemma calls_made_fresh_log:
  "calls_made e g a clientDataHash s =
     calls (snd (verifyAndroidSafetynet e g a clientDataHash (s\<lparr>calls := []\<rparr>)))"
  unfolding calls_made_def by (subst verify_log_prefix) simp

lemma verify_clock_readings:
  "clock_readings (calls_made e g a clientDataHash s) =
     (if reaches_chain_validation e a then [fst (now g (ambient s))] else [])"
  unfolding calls_made_fresh_log verifyAndroidSafetynet_def reaches_chain_validation_def
  by (simp add: Let_def record_call_def case_prod_beta
        split: option.split sum.split list.split)

lemma verify_validation_times:
  "validation_times (calls_made e g a clientDataHash s) =
     (if reaches_chain_validation e a then [fst (now g (ambient s))] else [])"
  unfolding calls_made_fresh_log verifyAndroidSafetynet_def reaches_chain_validation_def
  by (simp add: Let_def record_call_def case_prod_beta
        split: option.split sum.split list.split)

lemma verify_ambient:
  "ambient (snd (verifyAndroidSafetynet e g a clientDataHash s)) =
     (if reaches_chain_validation e a then snd (now g (ambient s)) else ambient s)"
  unfolding verifyAndroidSafetynet_def reaches_chain_validation_def
  by (simp add: Let_def record_call_def case_prod_beta
        split: option.split sum.split list.split)

text \<open>
  C9. An invocation that reaches chain validation reads the clock exactly once, and one
  that fails before it does not read the clock at all; so an invocation never takes more
  than one reading. The time handed to every chain validation of the call is that
  reading, and the world after the call is the world after that one reading. The
  package initialises \<^verbatim>\<open>now\<close> to \<^verbatim>\<open>time.Now\<close>.
\<close>
theorem C9_single_clock_reading:
  "clock_readings (calls_made e g a clientDataHash s) =
     (if reaches_chain_validation e a then [fst (now g (ambient s))] else []) \<and>
   length (clock_readings (calls_made e g a clientDataHash s)) \<le> 1 \<and>
   validation_times (calls_made e g a clientDataHash s) =
     clock_readings (calls_made e g a clientDataHash s) \<and>
   ambient (snd (verifyAndroidSafetynet e g a clientDataHash s)) =
     (if reaches_chain_validation e a then snd (now g (ambient s)) else ambient s) \<and>
   now (package_init time_Now) = time_Now"
  by (simp add: verify_clock_readings verify_validation_times verify_ambient package_init_def)

theorem C9_single_clock_reading_witness:
  "reaches_chain_validation demo_env (demo_attestation [1, 2] ''14'' [97]) \<and>
   clock_readings (calls_made demo_env demo_globals
     (demo_attestation [1, 2] ''14'' [97]) [3] demo_world) = [150] \<and>
   ambient (snd (verifyAndroidSafetynet demo_env demo_globals
     (demo_attestation [1, 2] ''14'' [97]) [3] demo_world)) = 1 \<and>
   \<not> reaches_chain_validation demo_env (demo_attestation [1, 2] ''14'' [98]) \<and>
   clock_readings (calls_made demo_env demo_globals
     (demo_attestation [1, 2] ''14'' [98]) [3] demo_world) = [] \<and>
   ambient (snd (verifyAndroidSafetynet demo_env demo_globals
     (demo_attestation [1, 2] ''14'' [98]) [3] demo_world)) = 0"
proof -
  have reach: "reaches_chain_validation demo_env (demo_attestation [1, 2] ''14'' [97])"
    "\<not> reaches_chain_validation demo_env (demo_attestation [1, 2] ''14'' [98])"
    by (simp_all add: reaches_chain_validation_def demo_defs)
  show ?thesis
    using C9_single_clock_reading [of demo_env demo_globals
        "demo_attestation [1, 2] ''14'' [97]" "[3]" demo_world "now demo_globals"]
      C9_single_clock_reading [of demo_env demo_globals
        "demo_attestation [1, 2] ''14'' [98]" "[3]" demo_world "now demo_globals"]
      reach
    by (simp add: demo_globals_def demo_world_def)
qed

subsection \<open>The version string\<close>

text \<open>
  C10. Two statements that differ only in the value of "ver", both values being non-empty
  strings, give the same result and leave the same world, all other inputs being equal.
\<close>
theorem C10_version_noninterference:
  assumes "AttStmt a1 ''ver'' = Some (VString v1)" "v1 \<noteq> []"
    and "AttStmt a2 ''ver'' = Some (VString v2)" "v2 \<noteq> []"
    and "\<forall>k. k \<noteq> ''ver'' \<longrightarrow> AttStmt a1 k = AttStmt a2 k"
    and "AuthData a1 = AuthData a2"
  shows "verifyAndroidSafetynet e g a1 clientDataHash s =
         verifyAndroidSafetynet e g a2 clientDataHash s"
proof -
  have "''response'' \<noteq> ''ver''"
    by simp
  with assms(5) have resp: "AttStmt a1 ''response'' = AttStmt a2 ''response''"
    by (elim allE impE)
  show ?thesis
    unfolding verifyAndroidSafetynet_def
    by (simp add: assms(1-4,6) resp Let_def case_prod_beta
          split: option.split sum.split list.split)
qed

theorem C10_version_noninterference_witness:
  "AttStmt (demo_attestation [1, 2] ''14'' [97]) ''ver'' = Some (VString ''14'') \<and>
   AttStmt (demo_attestation [1, 2] ''20000'' [97]) ''ver'' = Some (VString ''20000'') \<and>
   verifyAndroidSafetynet demo_env demo_globals
     (demo_attestation [1, 2] ''14'' [97]) [3] demo_world =
   verifyAndroidSafetynet demo_env demo_globals
     (demo_attestation [1, 2] ''20000'' [97]) [3] demo_world"
proof -
  have v1: "AttStmt (demo_attestation [1, 2] ''14'' [97]) ''ver'' = Some (VString ''14'')"
    and v2: "AttStmt (demo_attestation [1, 2] ''20000'' [97]) ''ver'' = Some (VString ''20000'')"
    by (simp_all add: demo_attestation_def)
  have n1: "''14'' \<noteq> []" and n2: "''20000'' \<noteq> []"
    by simp_all
  have others: "\<forall>k. k \<noteq> ''ver'' \<longrightarrow>
      AttStmt (demo_attestation [1, 2] ''14'' [97]) k =
      AttStmt (demo_attestation [1, 2] ''20000'' [97]) k"
    by (simp add: demo_attestation_def)
  have auth: "AuthData (demo_attestation [1, 2] ''14'' [97]) =
      AuthData (demo_attestation [1, 2] ''20000'' [97])"
    by (simp add: demo_attestation_def)
  show ?thesis
    using C10_version_noninterference [OF v1 n1 v2 n2 others auth] v1 v2
    by (intro conjI)
qed

end
